theory Spec2Isabelle
  imports Complex_Main
begin

section \<open>Green-wave coordination and fuzzy green-time adjustment\<close>

text \<open>
  A shallow embedding of \<^verbatim>\<open>controlador_fl/coordinacion.py\<close> and of the fuzzy
  controller and its calling layer in \<^verbatim>\<open>controlador_fl/main.py\<close>.

  Conventions of the embedding:
  \<^item> a Python \<^verbatim>\<open>float\<close> is a \<^typ>\<open>real\<close>. In \<^verbatim>\<open>haversine\<close>, where rounding
    decides whether a square root fails, every floating-point operation is the exact
    operation followed by a rounding \<open>fl\<close>, which is a parameter of the model: a theorem
    says what it assumes of \<open>fl\<close>, and assumes nothing else. Elsewhere the arithmetic is
    exact. Overflow, infinities and NaN are outside the model;
  \<^item> a Python \<^verbatim>\<open>int\<close> is an \<^typ>\<open>int\<close>, a list index a \<^typ>\<open>nat\<close>;
  \<^item> every exception the modelled code can raise is a value \<open>Inl e\<close> of the result type
    \<open>error + 'a\<close>;
  \<^item> a dataclass is a record. Field names are global in HOL, so the fields of
    \<^verbatim>\<open>TramoCoordinacion\<close> that clash with others (\<^verbatim>\<open>via_id\<close>, \<^verbatim>\<open>i\<close>, \<^verbatim>\<open>j\<close>,
    \<^verbatim>\<open>vd_kmh\<close>) carry the prefix \<open>tramo_\<close>.
\<close>

subsection \<open>Errors and the library functions of Python\<close>

datatype error =
    ValueError           \<comment> \<open>\<^verbatim>\<open>math.sqrt\<close> of a negative number: math domain error\<close>
  | ZeroDivisionError    \<comment> \<open>float division by zero\<close>
  | CentroideIndefinido  \<comment> \<open>the fuzzy engine has no crisp output: the aggregate is empty\<close>

text \<open>
  Two roundings to run the model with: \<open>exacto\<close> rounds nothing (exact arithmetic), and
  \<open>trunca\<close> cuts a number to 20 binary places, towards zero.
\<close>

definition exacto :: "real \<Rightarrow> real" where
  "exacto x = x"

definition trunca :: "real \<Rightarrow> real" where
  "trunca x = (if 0 \<le> x then real_of_int \<lfloor>x * 2 ^ 20\<rfloor> else real_of_int \<lceil>x * 2 ^ 20\<rceil>) / 2 ^ 20"

definition py_sqrt :: "(real \<Rightarrow> real) \<Rightarrow> real \<Rightarrow> error + real" where
  "py_sqrt fl x = (if x < 0 then Inl ValueError else Inr (fl (sqrt x)))"

definition py_div :: "real \<Rightarrow> real \<Rightarrow> error + real" where
  "py_div x y = (if y = 0 then Inl ZeroDivisionError else Inr (x / y))"

text \<open>\<^verbatim>\<open>int(x)\<close> on a float truncates towards zero.\<close>

definition py_int :: "real \<Rightarrow> int" where
  "py_int x = (if 0 \<le> x then \<lfloor>x\<rfloor> else \<lceil>x\<rceil>)"

definition radians :: "(real \<Rightarrow> real) \<Rightarrow> real \<Rightarrow> real" where
  "radians fl x = fl (x * pi / 180)"

text \<open>\<^verbatim>\<open>math.atan2(y, x)\<close>: the angle of the point \<open>(x, y)\<close>, in \<open>(-pi, pi]\<close>; it never raises.\<close>

definition atan2 :: "real \<Rightarrow> real \<Rightarrow> real" where
  "atan2 y x =
     (if 0 < x then arctan (y / x)
      else if x < 0 then (if 0 \<le> y then arctan (y / x) + pi else arctan (y / x) - pi)
      else if 0 < y then pi / 2
      else if y < 0 then - (pi / 2)
      else 0)"

subsection \<open>Geometry: \<^verbatim>\<open>haversine\<close>\<close>

text \<open>
  The haversine term \<^verbatim>\<open>a\<close> of the source, as the floating-point expression computes it:
  each subtraction, division, product, sum, square and library call is rounded.
\<close>

definition haversine_a :: "(real \<Rightarrow> real) \<Rightarrow> real \<Rightarrow> real \<Rightarrow> real \<Rightarrow> real \<Rightarrow> real" where
  "haversine_a fl lat1 lon1 lat2 lon2 =
     (let phi1 = radians fl lat1;
          phi2 = radians fl lat2;
          dphi = radians fl (fl (lat2 - lat1));
          dlambda = radians fl (fl (lon2 - lon1))
      in fl (fl ((fl (sin (fl (dphi / 2))))\<^sup>2)
             + fl (fl (fl (cos phi1) * fl (cos phi2)) * fl ((fl (sin (fl (dlambda / 2))))\<^sup>2))))"

text \<open>
  The last two lines of the function, from the term \<^verbatim>\<open>a\<close> on: \<^verbatim>\<open>math.sqrt(a)\<close> is
  evaluated first, then \<^verbatim>\<open>math.sqrt(1 - a)\<close>; each raises \<open>ValueError\<close> on a negative
  argument.
\<close>

definition haversine_c :: "(real \<Rightarrow> real) \<Rightarrow> real \<Rightarrow> error + real" where
  "haversine_c fl a =
     (let R = 6371000
      in case py_sqrt fl a of
           Inl e \<Rightarrow> Inl e
         | Inr sa \<Rightarrow>
             (case py_sqrt fl (fl (1 - a)) of
                Inl e \<Rightarrow> Inl e
              | Inr sb \<Rightarrow> Inr (fl (R * fl (2 * fl (atan2 sa sb))))))"

definition haversine :: "(real \<Rightarrow> real) \<Rightarrow> real \<Rightarrow> real \<Rightarrow> real \<Rightarrow> real \<Rightarrow> error + real" where
  "haversine fl lat1 lon1 lat2 lon2 = haversine_c fl (haversine_a fl lat1 lon1 lat2 lon2)"

subsection \<open>Data model\<close>

record Semaforo =
  id_local :: int
  lat :: real
  lon :: real

record TramoVelocidad =
  i_inicio :: int
  i_fin :: int
  vd_kmh :: real

record TramoCoordinacion =
  tramo_via_id :: string
  tramo_i :: int
  tramo_j :: int
  dist_m :: real
  tramo_vd_kmh :: real
  offset_s :: real
  tiempo_viaje_s :: real

record PlanCoordinacion =
  via_id :: string
  tramos :: "TramoCoordinacion list"
  ciclo_base_s :: real
  banda_objetivo_s :: real

subsection \<open>Design speed of a segment: \<^verbatim>\<open>asignar_vd_a_tramo\<close>\<close>

text \<open>The \<^verbatim>\<open>for\<close> loop over the table returns at the first entry whose range holds \<open>idx\<close>.\<close>

fun asignar_vd_a_tramo :: "int \<Rightarrow> TramoVelocidad list \<Rightarrow> real \<Rightarrow> real" where
  "asignar_vd_a_tramo idx [] vd_default_kmh = vd_default_kmh"
| "asignar_vd_a_tramo idx (tv # tramos_vd) vd_default_kmh =
     (if i_inicio tv \<le> idx \<and> idx < i_fin tv then vd_kmh tv
      else asignar_vd_a_tramo idx tramos_vd vd_default_kmh)"

text \<open>
  The words of the specification: a zone covers a segment index when the index lies in
  its half-open range, and the resolver answers with the first covering zone in list
  order, or with the default.
\<close>

definition zona_cubre :: "TramoVelocidad \<Rightarrow> int \<Rightarrow> bool" where
  "zona_cubre tv idx = (i_inicio tv \<le> idx \<and> idx < i_fin tv)"

definition resolver_spec :: "int \<Rightarrow> TramoVelocidad list \<Rightarrow> real \<Rightarrow> real" where
  "resolver_spec idx zonas vd_default_kmh =
     (case find (\<lambda>tv. zona_cubre tv idx) zonas of
        None \<Rightarrow> vd_default_kmh
      | Some tv \<Rightarrow> vd_kmh tv)"

subsection \<open>Segments of a corridor: \<^verbatim>\<open>construir_tramos_coordinacion\<close>\<close>

text \<open>
  The body of the loop for one index \<open>idx\<close>, which the caller keeps below
  \<open>length semaforos - 1\<close>, so that both list reads are in range. The distance comes from
  \<^verbatim>\<open>haversine\<close> and may fail there; the speed conversion, its floor at 0.1 m/s and the
  division are written as the source has them.
\<close>

definition cuerpo_tramo ::
  "(real \<Rightarrow> real) \<Rightarrow> string \<Rightarrow> Semaforo list \<Rightarrow> TramoVelocidad list \<Rightarrow> real \<Rightarrow> nat \<Rightarrow>
   error + TramoCoordinacion"
where
  "cuerpo_tramo fl via semaforos tramos_vd vd_default_kmh idx =
     (let s_i = semaforos ! idx;
          s_j = semaforos ! (idx + 1)
      in case haversine fl (lat s_i) (lon s_i) (lat s_j) (lon s_j) of
           Inl e \<Rightarrow> Inl e
         | Inr d \<Rightarrow>
             (let v_kmh = asignar_vd_a_tramo (int idx) tramos_vd vd_default_kmh;
                  vd_ms0 = v_kmh * 1000 / 3600;
                  vd_ms = (if vd_ms0 \<le> 0 then 0.1 else vd_ms0)
              in case py_div d vd_ms of
                   Inl e \<Rightarrow> Inl e
                 | Inr off \<Rightarrow>
                     Inr \<lparr> tramo_via_id = via,
                           tramo_i = id_local s_i,
                           tramo_j = id_local s_j,
                           dist_m = d,
                           tramo_vd_kmh = v_kmh,
                           offset_s = off,
                           tiempo_viaje_s = off \<rparr>))"

text \<open>The loop itself: the indices still to visit and the list built so far.\<close>

fun bucle_tramos ::
  "(real \<Rightarrow> real) \<Rightarrow> string \<Rightarrow> Semaforo list \<Rightarrow> TramoVelocidad list \<Rightarrow> real \<Rightarrow> nat list \<Rightarrow>
   TramoCoordinacion list \<Rightarrow> error + TramoCoordinacion list"
where
  "bucle_tramos fl via semaforos tramos_vd vd_default_kmh [] acc = Inr acc"
| "bucle_tramos fl via semaforos tramos_vd vd_default_kmh (idx # idxs) acc =
     (case cuerpo_tramo fl via semaforos tramos_vd vd_default_kmh idx of
        Inl e \<Rightarrow> Inl e
      | Inr t \<Rightarrow> bucle_tramos fl via semaforos tramos_vd vd_default_kmh idxs (acc @ [t]))"

definition construir_tramos_coordinacion ::
  "(real \<Rightarrow> real) \<Rightarrow> string \<Rightarrow> Semaforo list \<Rightarrow> TramoVelocidad list \<Rightarrow> real \<Rightarrow>
   error + TramoCoordinacion list"
where
  "construir_tramos_coordinacion fl via semaforos tramos_vd vd_default_kmh =
     (if length semaforos < 2 then Inr []
      else bucle_tramos fl via semaforos tramos_vd vd_default_kmh
             [0 ..< length semaforos - 1] [])"

subsection \<open>Base cycle and target band\<close>

definition estimar_ciclo_webster :: "real list \<Rightarrow> real \<Rightarrow> error + real" where
  "estimar_ciclo_webster flujos_criticos lost_time_s =
     (let y0 = (if flujos_criticos \<noteq> [] then min (max (sum_list flujos_criticos) 0.2) 0.9
                else 0.6);
          y = (if 1 \<le> y0 then 0.9 else y0)
      in case py_div (1.5 * lost_time_s + 5) (1 - y) of
           Inl e \<Rightarrow> Inl e
         | Inr C0 \<Rightarrow> Inr (max 40 (min C0 140)))"

definition calcular_banda_objetivo :: "real \<Rightarrow> real \<Rightarrow> real" where
  "calcular_banda_objetivo ciclo_s porcentaje =
     (let porcentaje' = max 0.3 (min porcentaje 0.7) in ciclo_s * porcentaje')"

subsection \<open>Plan of one corridor and of both\<close>

text \<open>
  The optional parameter \<^verbatim>\<open>flujos_criticos\<close> (default \<^verbatim>\<open>None\<close>) is an option;
  \<^verbatim>\<open>flujos_criticos or []\<close> turns \<^verbatim>\<open>None\<close> and the empty list into the empty list.
\<close>

definition o_lista_vacia :: "real list option \<Rightarrow> real list" where
  "o_lista_vacia flujos_criticos =
     (case flujos_criticos of None \<Rightarrow> [] | Some fs \<Rightarrow> (if fs = [] then [] else fs))"

definition generar_plan_para_via ::
  "(real \<Rightarrow> real) \<Rightarrow> string \<Rightarrow> Semaforo list \<Rightarrow> TramoVelocidad list \<Rightarrow> real \<Rightarrow>
   real list option \<Rightarrow> real \<Rightarrow> real \<Rightarrow> error + PlanCoordinacion"
where
  "generar_plan_para_via fl via semaforos tramos_vd vd_default_kmh flujos_criticos
     lost_time_s banda_porcentaje =
     (case construir_tramos_coordinacion fl via semaforos tramos_vd vd_default_kmh of
        Inl e \<Rightarrow> Inl e
      | Inr ts \<Rightarrow>
          (case estimar_ciclo_webster (o_lista_vacia flujos_criticos) lost_time_s of
             Inl e \<Rightarrow> Inl e
           | Inr ciclo \<Rightarrow>
               Inr \<lparr> via_id = via,
                     tramos = ts,
                     ciclo_base_s = ciclo,
                     banda_objetivo_s = calcular_banda_objetivo ciclo banda_porcentaje \<rparr>))"

text \<open>
  \<^verbatim>\<open>generar_plan_global\<close> receives each signal as a dict with the keys \<^verbatim>\<open>id\<close>,
  \<^verbatim>\<open>lat\<close>, \<^verbatim>\<open>lon\<close> and each speed zone as a dict with the keys \<^verbatim>\<open>i_inicio\<close>,
  \<^verbatim>\<open>i_fin\<close>, \<^verbatim>\<open>vd_kmh\<close>: here the triple of the values. The result dict has the two
  keys \<^verbatim>\<open>V1\<close> and \<^verbatim>\<open>V2\<close>: here the pair of the two plans.
\<close>

definition a_semaforo :: "int \<times> real \<times> real \<Rightarrow> Semaforo" where
  "a_semaforo s = (case s of (n, la, lo) \<Rightarrow> \<lparr> id_local = n, lat = la, lon = lo \<rparr>)"

definition a_tramo_velocidad :: "int \<times> int \<times> real \<Rightarrow> TramoVelocidad" where
  "a_tramo_velocidad t = (case t of (a, b, v) \<Rightarrow> \<lparr> i_inicio = a, i_fin = b, vd_kmh = v \<rparr>)"

definition generar_plan_global ::
  "(real \<Rightarrow> real) \<Rightarrow> (int \<times> real \<times> real) list \<Rightarrow> (int \<times> real \<times> real) list \<Rightarrow>
   (int \<times> int \<times> real) list \<Rightarrow> (int \<times> int \<times> real) list \<Rightarrow> real \<Rightarrow> real \<Rightarrow>
   real list option \<Rightarrow> real list option \<Rightarrow> real \<Rightarrow> real \<Rightarrow>
   error + (PlanCoordinacion \<times> PlanCoordinacion)"
where
  "generar_plan_global fl via1_semaforos via2_semaforos via1_tramos_vd via2_tramos_vd
     vd_default_via1_kmh vd_default_via2_kmh flujos_criticos_via1 flujos_criticos_via2
     lost_time_s banda_porcentaje =
     (let sem_v1 = map a_semaforo via1_semaforos;
          sem_v2 = map a_semaforo via2_semaforos;
          tramos_v1 = map a_tramo_velocidad via1_tramos_vd;
          tramos_v2 = map a_tramo_velocidad via2_tramos_vd
      in case generar_plan_para_via fl ''V1'' sem_v1 tramos_v1 vd_default_via1_kmh
                flujos_criticos_via1 lost_time_s banda_porcentaje of
           Inl e \<Rightarrow> Inl e
         | Inr plan_v1 \<Rightarrow>
             (case generar_plan_para_via fl ''V2'' sem_v2 tramos_v2 vd_default_via2_kmh
                     flujos_criticos_via2 lost_time_s banda_porcentaje of
                Inl e \<Rightarrow> Inl e
              | Inr plan_v2 \<Rightarrow> Inr (plan_v1, plan_v2)))"

section \<open>The fuzzy controller of \<^verbatim>\<open>main.py\<close>\<close>

subsection \<open>The inference engine\<close>

text \<open>
  Modelled from the spec: the triangular membership function \<^verbatim>\<open>fuzz.trimf\<close>.
  \<^verbatim>\<open>FuzzyTraffic\<close> builds its controller from the scikit-fuzzy library
  (\<^verbatim>\<open>fuzz.trimf\<close>, \<^verbatim>\<open>ctrl.Rule\<close>, \<^verbatim>\<open>ControlSystemSimulation.compute\<close>), whose code
  is not part of the repository; what the library computes is taken from section 4.7 of
  the specification. A triangular membership function is piecewise linear between its
  three control points, 0 outside the support and 1 at the apex.
\<close>

definition trimf :: "real \<Rightarrow> real \<times> real \<times> real \<Rightarrow> real" where
  "trimf x abc =
     (case abc of (a, b, c) \<Rightarrow>
        if x = b then 1
        else if a < x \<and> x < b then (x - a) / (b - a)
        else if b < x \<and> x < c then (c - x) / (c - b)
        else 0)"

text \<open>
  The membership sets and the three rules are those that \<^verbatim>\<open>FuzzyTraffic.__init__\<close>
  declares: the names, the control points and the connectives are the source's. As the
  specification says, \<^verbatim>\<open>&\<close> is the minimum and \<^verbatim>\<open>|\<close> the maximum of the two degrees.
\<close>

definition vehiculos_bajo :: "real \<Rightarrow> real" where "vehiculos_bajo x = trimf x (0, 0, 15)"
definition vehiculos_medio :: "real \<Rightarrow> real" where "vehiculos_medio x = trimf x (10, 25, 40)"
definition vehiculos_alto :: "real \<Rightarrow> real" where "vehiculos_alto x = trimf x (35, 50, 50)"
definition detencion_corto :: "real \<Rightarrow> real" where "detencion_corto x = trimf x (0, 0, 20)"
definition detencion_medio :: "real \<Rightarrow> real" where "detencion_medio x = trimf x (15, 30, 45)"
definition detencion_largo :: "real \<Rightarrow> real" where "detencion_largo x = trimf x (40, 60, 60)"
definition tiempo_verde_corto :: "real \<Rightarrow> real" where "tiempo_verde_corto x = trimf x (10, 10, 30)"
definition tiempo_verde_medio :: "real \<Rightarrow> real" where "tiempo_verde_medio x = trimf x (25, 45, 65)"
definition tiempo_verde_largo :: "real \<Rightarrow> real" where "tiempo_verde_largo x = trimf x (60, 90, 90)"

definition rule1 :: "real \<Rightarrow> real \<Rightarrow> real" where
  "rule1 v d = min (vehiculos_bajo v) (detencion_corto d)"
definition rule2 :: "real \<Rightarrow> real \<Rightarrow> real" where
  "rule2 v d = max (vehiculos_medio v) (detencion_medio d)"
definition rule3 :: "real \<Rightarrow> real \<Rightarrow> real" where
  "rule3 v d = max (vehiculos_alto v) (detencion_largo d)"

text \<open>
  Modelled from the spec: the inference of \<^verbatim>\<open>ControlSystemSimulation.compute\<close>, steps 2
  to 4 of section 4.7. Each output set is clipped at the strength of its rule, the clipped
  sets are joined by the pointwise maximum, and the crisp output is the centroid of the
  joined set, sampled at the integers of the output domain, which the source declares as
  \<^verbatim>\<open>np.arange(10, 91, 1)\<close>. The centroid of a set that is 0 everywhere is undefined:
  there the engine has no output, and the model says so with the error
  \<open>CentroideIndefinido\<close>.
\<close>

definition agregado :: "real \<Rightarrow> real \<Rightarrow> real \<Rightarrow> real" where
  "agregado v d x =
     max (max (min (rule1 v d) (tiempo_verde_corto x))
              (min (rule2 v d) (tiempo_verde_medio x)))
         (min (rule3 v d) (tiempo_verde_largo x))"

definition universo_tiempo_verde :: "real list" where
  "universo_tiempo_verde = map real_of_int [10..90]"

definition centroide :: "(real \<Rightarrow> real) \<Rightarrow> real list \<Rightarrow> error + real" where
  "centroide mu xs =
     (let den = sum_list (map mu xs);
          num = sum_list (map (\<lambda>x. x * mu x) xs)
      in if den = 0 then Inl CentroideIndefinido else Inr (num / den))"

definition fuzzy_controller_compute :: "real \<Rightarrow> real \<Rightarrow> error + real" where
  "fuzzy_controller_compute v d = centroide (agregado v d) universo_tiempo_verde"

subsection \<open>\<^verbatim>\<open>FuzzyTraffic.calcular_tiempo\<close>\<close>

text \<open>
  The method sets the two inputs, runs the engine and returns
  \<^verbatim>\<open>max(10, min(90, int(output)))\<close>; it catches nothing, so a failure of the engine
  reaches the caller as it is.
\<close>

definition calcular_tiempo :: "real \<Rightarrow> real \<Rightarrow> error + int" where
  "calcular_tiempo vehiculos detencion =
     (case fuzzy_controller_compute vehiculos detencion of
        Inl e \<Rightarrow> Inl e
      | Inr salida \<Rightarrow> Inr (max 10 (min 90 (py_int salida))))"

subsection \<open>The calling layer: \<^verbatim>\<open>EditorMapaSemaforos.simular_ajuste_difuso\<close>\<close>

text \<open>
  For each row of the table the method reads the baseline time \<^verbatim>\<open>t_seg\<close> and derives
  the two inputs of the engine from it: \<^verbatim>\<open>veh = min(50, int(t_seg / 2))\<close> and
  \<^verbatim>\<open>det = min(60, max(5, int(70 - t_seg)))\<close>.
\<close>

definition entradas_difusas :: "real \<Rightarrow> int \<times> int" where
  "entradas_difusas t_seg =
     (let veh = min 50 (py_int (t_seg / 2));
          det = min 60 (max 5 (py_int (70 - t_seg)))
      in (veh, det))"

text \<open>
  The loop over the rows of the table. The method reads column 6 of each row,
  \<^verbatim>\<open>float(vals[6])\<close>; both methods that fill the table, \<^verbatim>\<open>calcular_onda_verde\<close> and
  \<^verbatim>\<open>calcular_coordinacion_avanzada\<close>, write \<^verbatim>\<open>int(t_seg)\<close> there, the integer part of a
  travel time, which is a distance over a positive speed. So a table is the list of
  these integers. The result is the two lists the method builds for the chart; with no
  row the method warns and returns early: \<open>None\<close>.
\<close>

fun bucle_simular :: "int list \<Rightarrow> real list \<Rightarrow> int list \<Rightarrow> error + (real list \<times> int list)" where
  "bucle_simular [] tiempos_base tiempos_ajust = Inr (tiempos_base, tiempos_ajust)"
| "bucle_simular (item # items) tiempos_base tiempos_ajust =
     (let t_seg = real_of_int item
      in case entradas_difusas t_seg of (veh, det) \<Rightarrow>
           (case calcular_tiempo (real_of_int veh) (real_of_int det) of
              Inl e \<Rightarrow> Inl e
            | Inr t_new \<Rightarrow>
                bucle_simular items (tiempos_base @ [t_seg]) (tiempos_ajust @ [t_new])))"

definition simular_ajuste_difuso :: "int list \<Rightarrow> error + (real list \<times> int list) option" where
  "simular_ajuste_difuso items =
     (if items = [] then Inr None
      else case bucle_simular items [] [] of
             Inl e \<Rightarrow> Inl e
           | Inr r \<Rightarrow> Inr (Some r))"

section \<open>Properties of the coordination module\<close>

subsection \<open>Speed zones\<close>

lemma asignar_vd_is_resolver:
  "asignar_vd_a_tramo idx zonas d = resolver_spec idx zonas d"
  by (induction zonas) (simp_all add: resolver_spec_def zona_cubre_def)

text \<open>
  C5. For every segment index, zone list and default speed, \<^verbatim>\<open>asignar_vd_a_tramo\<close>
  answers as the resolver of the specification does: with the design speed of the first
  zone in list order whose half-open range \<open>[i_inicio, i_fin)\<close> holds the index (the zone at
  position \<open>k\<close> when it covers the index and no earlier one does), and with the default when
  no zone covers it. The function is total: empty and overlapping tables raise nothing.
\<close>

theorem asignar_vd_primera_zona:
  "asignar_vd_a_tramo idx zonas d = resolver_spec idx zonas d
   \<and> (\<forall>k<length zonas.
         zona_cubre (zonas ! k) idx \<and> (\<forall>j<k. \<not> zona_cubre (zonas ! j) idx)
         \<longrightarrow> asignar_vd_a_tramo idx zonas d = vd_kmh (zonas ! k))
   \<and> ((\<forall>tv \<in> set zonas. \<not> zona_cubre tv idx) \<longrightarrow> asignar_vd_a_tramo idx zonas d = d)"
proof (intro conjI allI impI)
  show "asignar_vd_a_tramo idx zonas d = resolver_spec idx zonas d"
    by (rule asignar_vd_is_resolver)
next
  fix k
  assume k: "k < length zonas"
    and cov: "zona_cubre (zonas ! k) idx \<and> (\<forall>j<k. \<not> zona_cubre (zonas ! j) idx)"
  then have "find (\<lambda>tv. zona_cubre tv idx) zonas = Some (zonas ! k)"
    unfolding find_Some_iff by blast
  then show "asignar_vd_a_tramo idx zonas d = vd_kmh (zonas ! k)"
    by (simp add: asignar_vd_is_resolver resolver_spec_def)
next
  assume "\<forall>tv \<in> set zonas. \<not> zona_cubre tv idx"
  then have "find (\<lambda>tv. zona_cubre tv idx) zonas = None"
    by (simp add: find_None_iff)
  then show "asignar_vd_a_tramo idx zonas d = d"
    by (simp add: asignar_vd_is_resolver resolver_spec_def)
qed

text \<open>
  Two overlapping zones, \<open>[0, 3)\<close> at 40 km/h and \<open>[2, 5)\<close> at 60 km/h: segment 2 lies in
  both and gets the first, segment 4 gets the second, segment 7 and the empty table get
  the default.
\<close>

theorem asignar_vd_primera_zona_witness:
  "asignar_vd_a_tramo 2 [\<lparr>i_inicio = 0, i_fin = 3, vd_kmh = 40\<rparr>,
                         \<lparr>i_inicio = 2, i_fin = 5, vd_kmh = 60\<rparr>] 30 = 40
   \<and> asignar_vd_a_tramo 4 [\<lparr>i_inicio = 0, i_fin = 3, vd_kmh = 40\<rparr>,
                           \<lparr>i_inicio = 2, i_fin = 5, vd_kmh = 60\<rparr>] 30 = 60
   \<and> asignar_vd_a_tramo 7 [\<lparr>i_inicio = 0, i_fin = 3, vd_kmh = 40\<rparr>,
                           \<lparr>i_inicio = 2, i_fin = 5, vd_kmh = 60\<rparr>] 30 = 30
   \<and> asignar_vd_a_tramo 7 [] 30 = 30"
  using
    asignar_vd_primera_zona[of 2 "[\<lparr>i_inicio = 0, i_fin = 3, vd_kmh = 40\<rparr>,
                                   \<lparr>i_inicio = 2, i_fin = 5, vd_kmh = 60\<rparr>]" 30]
    asignar_vd_primera_zona[of 4 "[\<lparr>i_inicio = 0, i_fin = 3, vd_kmh = 40\<rparr>,
                                   \<lparr>i_inicio = 2, i_fin = 5, vd_kmh = 60\<rparr>]" 30]
    asignar_vd_primera_zona[of 7 "[\<lparr>i_inicio = 0, i_fin = 3, vd_kmh = 40\<rparr>,
                                   \<lparr>i_inicio = 2, i_fin = 5, vd_kmh = 60\<rparr>]" 30]
    asignar_vd_primera_zona[of 7 "[]" 30]
  by (simp add: resolver_spec_def zona_cubre_def)

subsection \<open>Base cycle\<close>

lemma estimar_ciclo_webster_total:
  "\<exists>C. estimar_ciclo_webster flujos L = Inr C \<and> 40 \<le> C \<and> C \<le> 140"
  by (auto simp: estimar_ciclo_webster_def py_div_def Let_def)

text \<open>
  The two scenarios of the specification: no ratios give \<open>y = 0.6\<close> and 57.5 s, unclamped;
  the single ratio 0.95 is cut to \<open>y = 0.9\<close>, and the 230 s that follow to 140 s.
\<close>

lemma estimar_ciclo_webster_escenarios:
  "estimar_ciclo_webster [] 12 = Inr 57.5"
  "estimar_ciclo_webster [0.95] 12 = Inr 140"
  by (simp_all add: estimar_ciclo_webster_def py_div_def Let_def)

text \<open>
  C2. For every list of critical-flow ratios (empty, with negative entries, with entries
  above 1) and every lost time, \<^verbatim>\<open>estimar_ciclo_webster\<close> returns a value \<open>C\<close> with
  \<open>40 \<le> C \<le> 140\<close>; the division never fails, since \<open>y\<close> stays at most 0.9.
\<close>

theorem estimar_ciclo_webster_en_rango:
  "\<exists>C. estimar_ciclo_webster flujos_criticos lost_time_s = Inr C \<and> 40 \<le> C \<and> C \<le> 140"
  by (rule estimar_ciclo_webster_total)

subsection \<open>Great-circle distance\<close>

text \<open>
  What the theorems ask of the rounding: that it is sign-symmetric, and that it leaves 0
  and 1 as they are. Rounding to nearest, as Python's floats do, is such a rounding; so
  are \<open>exacto\<close> and \<open>trunca\<close>.
\<close>

lemma trunca_minus: "trunca (- x) = - trunca x"
proof -
  have "\<lfloor>- (x * 2 ^ 20)\<rfloor> = - \<lceil>x * 2 ^ 20\<rceil>" "\<lceil>- (x * 2 ^ 20)\<rceil> = - \<lfloor>x * 2 ^ 20\<rfloor>"
    by (simp_all add: ceiling_def)
  then show ?thesis
    by (cases "x = 0") (auto simp: trunca_def)
qed

lemma trunca_0_1: "trunca 0 = 0" "trunca 1 = 1"
  by (simp_all add: trunca_def)

lemma sin_cuadrado_impar:
  assumes "\<forall>x. fl (- x) = - fl (x::real)"
  shows "(fl (sin (fl (radians fl (fl (x - y)) / 2))))\<^sup>2 = (fl (sin (fl (radians fl (fl (y - x)) / 2))))\<^sup>2"
proof -
  have a: "fl (x - y) = - fl (y - x)" using assms[rule_format, of "y - x"] by simp
  have b: "radians fl (- z) = - radians fl z" for z
    using assms[rule_format, of "z * pi / 180"] by (simp add: radians_def)
  have c: "fl (- z / 2) = - fl (z / 2)" for z
    using assms[rule_format, of "z / 2"] by simp
  have "fl (sin (fl (radians fl (fl (x - y)) / 2))) = - fl (sin (fl (radians fl (fl (y - x)) / 2)))"
    unfolding a b c sin_minus using assms by blast
  then show ?thesis by simp
qed

lemma haversine_a_sym:
  assumes "\<forall>x. fl (- x) = - fl (x::real)"
  shows "haversine_a fl lat1 lon1 lat2 lon2 = haversine_a fl lat2 lon2 lat1 lon1"
  unfolding haversine_a_def Let_def
  using sin_cuadrado_impar[OF assms, of lat2 lat1] sin_cuadrado_impar[OF assms, of lon2 lon1]
  by (simp add: mult.commute)

lemma haversine_a_same:
  fixes fl :: "real \<Rightarrow> real"
  assumes "fl 0 = 0"
  shows "haversine_a fl la lo la lo = 0"
  by (simp add: haversine_a_def radians_def assms)

lemma haversine_same_point:
  fixes fl :: "real \<Rightarrow> real"
  assumes "fl 0 = 0" "fl 1 = 1"
  shows "haversine fl la lo la lo = Inr 0"
  using assms haversine_a_same[of fl la lo]
  by (simp add: haversine_def haversine_c_def py_sqrt_def atan2_def)

text \<open>
  C9. The distance is symmetric for every rounding that is sign-symmetric: the two calls
  compute the same term and so give the same result, or fail alike. The distance from a
  point to itself is 0 for every rounding that leaves 0 and 1 unchanged. Nothing is said
  here of whether the call returns for two different points: the square root of
  \<open>1 - a\<close> fails when rounding has pushed the term above 1.
\<close>

theorem haversine_simetrica_y_nula:
  "((\<forall>x. fl (- x) = - fl x) \<longrightarrow>
      haversine fl lat1 lon1 lat2 lon2 = haversine fl lat2 lon2 lat1 lon1)
   \<and> (fl 0 = 0 \<and> fl 1 = 1 \<longrightarrow> haversine fl lat1 lon1 lat1 lon1 = Inr 0)"
  using haversine_a_sym[of fl lat1 lon1 lat2 lon2] haversine_same_point[of fl lat1 lon1]
  by (auto simp: haversine_def)

text \<open>
  With the truncating rounding, two signals of the module's own example; with exact
  arithmetic, the antipodal pair \<open>(-82, -180)\<close>, \<open>(82, 0)\<close>.
\<close>

theorem haversine_simetrica_y_nula_witness:
  "(\<forall>x. trunca (- x) = - trunca x) \<and> trunca 0 = 0 \<and> trunca 1 = 1
   \<and> haversine trunca (- 45.870) (- 67.500) (- 45.869) (- 67.495)
       = haversine trunca (- 45.869) (- 67.495) (- 45.870) (- 67.500)
   \<and> haversine trunca (- 45.870) (- 67.500) (- 45.870) (- 67.500) = Inr 0
   \<and> haversine exacto (- 82) (- 180) 82 0 = haversine exacto 82 0 (- 82) (- 180)
   \<and> haversine exacto 82 0 82 0 = Inr 0"
  using haversine_simetrica_y_nula[of trunca "- 45.870" "- 67.500" "- 45.869" "- 67.495"]
    haversine_simetrica_y_nula[of exacto "- 82" "- 180" 82 0] haversine_simetrica_y_nula[of exacto 82 0 82 0]
  by (simp add: trunca_minus trunca_0_1 exacto_def)


lemma haversine_raiz_negativa:
  assumes "0 \<le> haversine_a fl lat1 lon1 lat2 lon2"
    and "fl (1 - haversine_a fl lat1 lon1 lat2 lon2) < 0"
  shows "haversine fl lat1 lon1 lat2 lon2 = Inl ValueError"
  using assms by (simp add: haversine_def haversine_c_def py_sqrt_def)

text \<open>
  In exact arithmetic the term stays in \<open>[0, 1]\<close>, so there the function returns; its
  value is never negative, and positive for two different points with latitudes strictly
  between -90 and 90 and longitudes less than 360 degrees apart.
\<close>

lemma sin_sq_unit: "0 \<le> (sin (x::real))\<^sup>2 \<and> (sin x)\<^sup>2 \<le> 1"
  using abs_sin_le_one[of x] by (simp add: abs_square_le_1)

lemma radians_exacto: "radians exacto x = x * pi / 180"
  by (simp add: radians_def exacto_def)

lemma radians_diff: "radians exacto (x - y) = radians exacto x - radians exacto y"
  by (simp add: radians_exacto left_diff_distrib diff_divide_distrib)

lemma haversine_a_exacto:
  "haversine_a exacto lat1 lon1 lat2 lon2 =
     (sin (radians exacto (lat2 - lat1) / 2))\<^sup>2
     + cos (radians exacto lat1) * cos (radians exacto lat2)
       * (sin (radians exacto (lon2 - lon1) / 2))\<^sup>2"
  by (simp add: haversine_a_def Let_def) (simp add: exacto_def)

lemma haversine_a_mix:
  fixes s c q :: real
  assumes "0 \<le> s" "s \<le> 1" "0 \<le> q" "q \<le> 1" "- s \<le> c" "c \<le> 1 - s"
  shows "0 \<le> s + c * q \<and> s + c * q \<le> 1"
proof
  have "(- s) * q \<le> c * q" using assms by (intro mult_right_mono) simp_all
  moreover have "s * q \<le> s * 1" using assms by (intro mult_left_mono) simp_all
  ultimately show "0 \<le> s + c * q" by simp
next
  have "c * q \<le> (1 - s) * q" using assms by (intro mult_right_mono) simp_all
  moreover have "(1 - s) * q \<le> (1 - s) * 1" using assms by (intro mult_left_mono) simp_all
  ultimately show "s + c * q \<le> 1" by simp
qed

text \<open>The term under the square roots stays in \<open>[0, 1]\<close>: neither root can fail.\<close>

lemma haversine_a_bounds:
  "0 \<le> haversine_a exacto lat1 lon1 lat2 lon2 \<and> haversine_a exacto lat1 lon1 lat2 lon2 \<le> 1"
proof -
  define p1 where "p1 = radians exacto lat1"
  define p2 where "p2 = radians exacto lat2"
  define s where "s = (sin ((p2 - p1) / 2))\<^sup>2"
  define q where "q = (sin (radians exacto (lon2 - lon1) / 2))\<^sup>2"
  define c where "c = cos p1 * cos p2"
  have a: "haversine_a exacto lat1 lon1 lat2 lon2 = s + c * q"
    by (simp add: haversine_a_exacto radians_diff s_def q_def c_def p1_def p2_def)
  have e: "2 * ((p2 - p1) / 2) = p2 - p1" by simp
  have cd: "cos (p2 - p1) = 1 - 2 * s"
    using cos_double_sin[of "(p2 - p1) / 2"] unfolding e s_def .
  have "cos (p1 - p2) = cos (p2 - p1)"
    using cos_minus[of "p2 - p1"] by simp
  then have c_eq: "c = (1 - 2 * s + cos (p1 + p2)) / 2"
    by (simp add: c_def cos_times_cos cd)
  have "0 \<le> 1 + cos (p1 + p2)"
    using cos_ge_minus_one[of "p1 + p2"] by linarith
  then have c_lo: "- s \<le> c"
    by (simp add: c_eq)
  have "cos (p1 + p2) - 1 \<le> 0"
    using cos_le_one[of "p1 + p2"] by linarith
  then have c_hi: "c \<le> 1 - s"
    by (simp add: c_eq)
  show ?thesis
    unfolding a
    using haversine_a_mix[of s q c] sin_sq_unit[of "(p2 - p1) / 2"]
      sin_sq_unit[of "radians exacto (lon2 - lon1) / 2"] c_lo c_hi
    by (simp add: s_def q_def)
qed

lemma haversine_value:
  "haversine exacto lat1 lon1 lat2 lon2 =
     Inr (6371000 * (2 * atan2 (sqrt (haversine_a exacto lat1 lon1 lat2 lon2))
                               (sqrt (1 - haversine_a exacto lat1 lon1 lat2 lon2))))"
  using haversine_a_bounds[of lat1 lon1 lat2 lon2]
  by (simp add: haversine_def haversine_c_def py_sqrt_def Let_def) (simp add: exacto_def)







subsection \<open>Segments of a corridor\<close>

lemma cuerpo_tramo_forma:
  "cuerpo_tramo fl via sems tvs d idx =
     (case haversine fl (lat (sems ! idx)) (lon (sems ! idx))
                        (lat (sems ! (idx + 1))) (lon (sems ! (idx + 1))) of
        Inl e \<Rightarrow> Inl e
      | Inr dd \<Rightarrow>
          Inr \<lparr> tramo_via_id = via,
                tramo_i = id_local (sems ! idx),
                tramo_j = id_local (sems ! (idx + 1)),
                dist_m = dd,
                tramo_vd_kmh = asignar_vd_a_tramo (int idx) tvs d,
                offset_s = dd / (if asignar_vd_a_tramo (int idx) tvs d * 1000 / 3600 \<le> 0
                                   then 0.1 else asignar_vd_a_tramo (int idx) tvs d * 1000 / 3600),
                tiempo_viaje_s = dd / (if asignar_vd_a_tramo (int idx) tvs d * 1000 / 3600 \<le> 0
                                   then 0.1 else asignar_vd_a_tramo (int idx) tvs d * 1000 / 3600) \<rparr>)"
  by (simp add: cuerpo_tramo_def py_div_def Let_def split: sum.splits)





lemma bucle_tramos_si_cada_tramo:
  "(\<forall>idx \<in> set idxs. \<exists>t. cuerpo_tramo fl via sems tvs d idx = Inr t) \<Longrightarrow>
     \<exists>r. bucle_tramos fl via sems tvs d idxs acc = Inr r"
proof (induction idxs arbitrary: acc)
  case Nil
  then show ?case by simp
next
  case (Cons idx idxs)
  then obtain t where t: "cuerpo_tramo fl via sems tvs d idx = Inr t" by auto
  show ?case using Cons.IH[of "acc @ [t]"] Cons.prems t by simp
qed



lemma construir_tramos_corto:
  "length sems < 2 \<Longrightarrow> construir_tramos_coordinacion fl via sems tvs d = Inr []"
  by (simp add: construir_tramos_coordinacion_def)

lemma construir_tramos_raiz_negativa:
  assumes "0 \<le> haversine_a fl (lat s1) (lon s1) (lat s2) (lon s2)"
    and "fl (1 - haversine_a fl (lat s1) (lon s1) (lat s2) (lon s2)) < 0"
  shows "construir_tramos_coordinacion fl via [s1, s2] tvs d = Inl ValueError"
  using haversine_raiz_negativa[OF assms]
  by (simp add: construir_tramos_coordinacion_def cuerpo_tramo_forma)

lemma construir_tramos_exacto:
  "\<exists>ts. construir_tramos_coordinacion exacto via sems tvs d = Inr ts"
proof (cases "length sems < 2")
  case True
  then show ?thesis by (simp add: construir_tramos_corto)
next
  case False
  have "\<forall>idx \<in> set [0 ..< length sems - 1]. \<exists>t. cuerpo_tramo exacto via sems tvs d idx = Inr t"
    by (simp add: cuerpo_tramo_forma haversine_value)
  from bucle_tramos_si_cada_tramo[OF this, of "[]"] show ?thesis
    using False by (simp add: construir_tramos_coordinacion_def)
qed






text \<open>
  C4. The builder does not return for every corridor. For the two signals
  \<open>(-82, -180)\<close> and \<open>(82, 0)\<close> the floating-point term \<^verbatim>\<open>a\<close> is
  \<open>1.0000000000000002 = 1 + 2^-52\<close>; from that term on the function takes the root of
  \<open>a\<close>, then asks for the root of \<open>1 - a = - 2^-52\<close>, and raises \<open>ValueError\<close>: no
  segment is returned where the claim says one is.
\<close>

theorem haversine_c_termino_sobre_uno: "haversine_c exacto (1 + 1 / 2 ^ 52) = Inl ValueError"
  by (simp add: haversine_c_def py_sqrt_def exacto_def)

subsection \<open>Plans\<close>

lemma estimar_ciclo_webster_vacio:
  "estimar_ciclo_webster [] L = Inr (max 40 (min ((1.5 * L + 5) / (1 - 0.6)) 140))"
  by (simp add: estimar_ciclo_webster_def py_div_def)

lemma o_lista_vacia_None: "o_lista_vacia None = []" "o_lista_vacia (Some []) = []"
  by (simp_all add: o_lista_vacia_def)

lemma generar_plan_para_via_forma:
  "generar_plan_para_via fl via sems tvs d fc L p =
     (case construir_tramos_coordinacion fl via sems tvs d of
        Inl e \<Rightarrow> Inl e
      | Inr ts \<Rightarrow>
          (case estimar_ciclo_webster (o_lista_vacia fc) L of
             Inl e \<Rightarrow> Inl e
           | Inr C \<Rightarrow> Inr \<lparr> via_id = via, tramos = ts, ciclo_base_s = C,
                            banda_objetivo_s = calcular_banda_objetivo C p \<rparr>))"
  by (simp add: generar_plan_para_via_def)

lemma generar_plan_para_via_devuelve:
  assumes "generar_plan_para_via fl via sems tvs d fc L p = Inr plan"
  shows "\<exists>ts C. construir_tramos_coordinacion fl via sems tvs d = Inr ts
           \<and> estimar_ciclo_webster (o_lista_vacia fc) L = Inr C
           \<and> plan = \<lparr> via_id = via, tramos = ts, ciclo_base_s = C,
                       banda_objetivo_s = calcular_banda_objetivo C p \<rparr>"
  using assms unfolding generar_plan_para_via_forma by (auto split: sum.splits)

lemma generar_plan_para_via_sin_flujos:
  "generar_plan_para_via fl via sems tvs d None L p =
     (case construir_tramos_coordinacion fl via sems tvs d of
        Inl e \<Rightarrow> Inl e
      | Inr ts \<Rightarrow>
          Inr \<lparr> via_id = via, tramos = ts,
                ciclo_base_s = max 40 (min ((1.5 * L + 5) / (1 - 0.6)) 140),
                banda_objetivo_s =
                  calcular_banda_objetivo (max 40 (min ((1.5 * L + 5) / (1 - 0.6)) 140)) p \<rparr>)"
  unfolding generar_plan_para_via_forma o_lista_vacia_None estimar_ciclo_webster_vacio
  by (simp split: sum.splits)

text \<open>
  With fewer than two signals no distance is computed: the builder returns the empty list
  and the plan has the usual cycle and band.
\<close>

lemma generar_plan_para_via_corto:
  assumes "length sems < 2"
  shows "\<exists>C. estimar_ciclo_webster (o_lista_vacia fc) L = Inr C
           \<and> generar_plan_para_via fl via sems tvs d fc L p =
               Inr \<lparr> via_id = via, tramos = [], ciclo_base_s = C,
                     banda_objetivo_s = calcular_banda_objetivo C p \<rparr>"
proof -
  obtain C where C: "estimar_ciclo_webster (o_lista_vacia fc) L = Inr C"
    using estimar_ciclo_webster_total by blast
  show ?thesis
    using C construir_tramos_corto[OF assms, of fl via tvs d]
    by (simp add: generar_plan_para_via_forma)
qed

text \<open>
  C10. \<^verbatim>\<open>generar_plan_para_via\<close> called with \<^verbatim>\<open>flujos_criticos = None\<close> does what it
  does with the empty list, and so does \<^verbatim>\<open>generar_plan_global\<close> for either corridor.
  The missing list raises nothing: the call fails only where the builder of the segments
  fails, and with its error. Wherever the builder returns, the plan has its segments, the
  Webster cycle for \<open>y = 0.6\<close> clamped to \<open>[40, 140]\<close>, and the band of that cycle; in
  \<^verbatim>\<open>generar_plan_global\<close> both plans do.
\<close>

theorem generar_plan_sin_flujos:
  "generar_plan_para_via fl via sems tvs d None L p =
     generar_plan_para_via fl via sems tvs d (Some []) L p
   \<and> (\<forall>ts. construir_tramos_coordinacion fl via sems tvs d = Inr ts \<longrightarrow>
         generar_plan_para_via fl via sems tvs d None L p =
           Inr \<lparr> via_id = via, tramos = ts,
                 ciclo_base_s = max 40 (min ((1.5 * L + 5) / (1 - 0.6)) 140),
                 banda_objetivo_s =
                   calcular_banda_objetivo (max 40 (min ((1.5 * L + 5) / (1 - 0.6)) 140)) p \<rparr>)
   \<and> (\<forall>e. generar_plan_para_via fl via sems tvs d None L p = Inl e \<longrightarrow>
         construir_tramos_coordinacion fl via sems tvs d = Inl e)
   \<and> generar_plan_global fl s1 s2 t1 t2 d1 d2 None f2 L p =
       generar_plan_global fl s1 s2 t1 t2 d1 d2 (Some []) f2 L p
   \<and> generar_plan_global fl s1 s2 t1 t2 d1 d2 f1 None L p =
       generar_plan_global fl s1 s2 t1 t2 d1 d2 f1 (Some []) L p
   \<and> (\<forall>ts1 ts2.
         construir_tramos_coordinacion fl ''V1'' (map a_semaforo s1) (map a_tramo_velocidad t1) d1
           = Inr ts1
       \<and> construir_tramos_coordinacion fl ''V2'' (map a_semaforo s2) (map a_tramo_velocidad t2) d2
           = Inr ts2 \<longrightarrow>
         generar_plan_global fl s1 s2 t1 t2 d1 d2 None None L p =
           Inr (\<lparr> via_id = ''V1'', tramos = ts1,
                   ciclo_base_s = max 40 (min ((1.5 * L + 5) / (1 - 0.6)) 140),
                   banda_objetivo_s =
                     calcular_banda_objetivo (max 40 (min ((1.5 * L + 5) / (1 - 0.6)) 140)) p \<rparr>,
                \<lparr> via_id = ''V2'', tramos = ts2,
                   ciclo_base_s = max 40 (min ((1.5 * L + 5) / (1 - 0.6)) 140),
                   banda_objetivo_s =
                     calcular_banda_objetivo (max 40 (min ((1.5 * L + 5) / (1 - 0.6)) 140)) p \<rparr>))"
proof (intro conjI allI impI)
  show a: "generar_plan_para_via fl via sems tvs d None L p =
        generar_plan_para_via fl via sems tvs d (Some []) L p" for via sems tvs d
    unfolding generar_plan_para_via_def o_lista_vacia_None by (rule refl)
  show "generar_plan_global fl s1 s2 t1 t2 d1 d2 None f2 L p =
       generar_plan_global fl s1 s2 t1 t2 d1 d2 (Some []) f2 L p"
    unfolding generar_plan_global_def a by (rule refl)
  show "generar_plan_global fl s1 s2 t1 t2 d1 d2 f1 None L p =
       generar_plan_global fl s1 s2 t1 t2 d1 d2 f1 (Some []) L p"
    unfolding generar_plan_global_def a by (rule refl)
next
  fix ts assume "construir_tramos_coordinacion fl via sems tvs d = Inr ts"
  then show "generar_plan_para_via fl via sems tvs d None L p =
           Inr \<lparr> via_id = via, tramos = ts,
                 ciclo_base_s = max 40 (min ((1.5 * L + 5) / (1 - 0.6)) 140),
                 banda_objetivo_s =
                   calcular_banda_objetivo (max 40 (min ((1.5 * L + 5) / (1 - 0.6)) 140)) p \<rparr>"
    by (simp add: generar_plan_para_via_sin_flujos)
next
  fix e assume "generar_plan_para_via fl via sems tvs d None L p = Inl e"
  then show "construir_tramos_coordinacion fl via sems tvs d = Inl e"
    unfolding generar_plan_para_via_sin_flujos by (auto split: sum.splits)
next
  fix ts1 ts2
  assume "construir_tramos_coordinacion fl ''V1'' (map a_semaforo s1) (map a_tramo_velocidad t1) d1
           = Inr ts1
       \<and> construir_tramos_coordinacion fl ''V2'' (map a_semaforo s2) (map a_tramo_velocidad t2) d2
           = Inr ts2"
  then show "generar_plan_global fl s1 s2 t1 t2 d1 d2 None None L p =
           Inr (\<lparr> via_id = ''V1'', tramos = ts1,
                   ciclo_base_s = max 40 (min ((1.5 * L + 5) / (1 - 0.6)) 140),
                   banda_objetivo_s =
                     calcular_banda_objetivo (max 40 (min ((1.5 * L + 5) / (1 - 0.6)) 140)) p \<rparr>,
                \<lparr> via_id = ''V2'', tramos = ts2,
                   ciclo_base_s = max 40 (min ((1.5 * L + 5) / (1 - 0.6)) 140),
                   banda_objetivo_s =
                     calcular_banda_objetivo (max 40 (min ((1.5 * L + 5) / (1 - 0.6)) 140)) p \<rparr>)"
    by (simp add: generar_plan_global_def generar_plan_para_via_sin_flujos)
qed

text \<open>
  The two corridors of the module's own example, with the default lost time of 12 s and
  band fraction of 0.45: both plans have the cycle 57.5 s and the band 25.875 s.
\<close>

theorem generar_plan_sin_flujos_witness:
  "\<exists>ts1 ts2.
     construir_tramos_coordinacion exacto ''V1''
       (map a_semaforo [(0, - 45.870, - 67.500), (1, - 45.869, - 67.495), (2, - 45.868, - 67.490)])
       (map a_tramo_velocidad [(0, 2, 40)]) 40 = Inr ts1
   \<and> construir_tramos_coordinacion exacto ''V2''
       (map a_semaforo [(0, - 45.868, - 67.490), (1, - 45.869, - 67.495), (2, - 45.870, - 67.500)])
       (map a_tramo_velocidad [(0, 2, 40)]) 40 = Inr ts2
   \<and> generar_plan_global exacto
        [(0, - 45.870, - 67.500), (1, - 45.869, - 67.495), (2, - 45.868, - 67.490)]
        [(0, - 45.868, - 67.490), (1, - 45.869, - 67.495), (2, - 45.870, - 67.500)]
        [(0, 2, 40)] [(0, 2, 40)] 40 40 None None 12 0.45 =
      Inr (\<lparr> via_id = ''V1'', tramos = ts1, ciclo_base_s = 57.5, banda_objetivo_s = 25.875 \<rparr>,
           \<lparr> via_id = ''V2'', tramos = ts2, ciclo_base_s = 57.5, banda_objetivo_s = 25.875 \<rparr>)
   \<and> generar_plan_para_via exacto ''V1''
        (map a_semaforo [(0, - 45.870, - 67.500), (1, - 45.869, - 67.495), (2, - 45.868, - 67.490)])
        (map a_tramo_velocidad [(0, 2, 40)]) 40 None 12 0.45 =
      Inr \<lparr> via_id = ''V1'', tramos = ts1, ciclo_base_s = 57.5, banda_objetivo_s = 25.875 \<rparr>"
proof -
  let ?s1 = "[(0, - 45.870, - 67.500), (1, - 45.869, - 67.495), (2, - 45.868, - 67.490)] :: (int \<times> real \<times> real) list"
  let ?s2 = "[(0, - 45.868, - 67.490), (1, - 45.869, - 67.495), (2, - 45.870, - 67.500)] :: (int \<times> real \<times> real) list"
  let ?t = "[(0, 2, 40)] :: (int \<times> int \<times> real) list"
  obtain ts1 where ts1: "construir_tramos_coordinacion exacto ''V1'' (map a_semaforo ?s1)
       (map a_tramo_velocidad ?t) 40 = Inr ts1"
    using construir_tramos_exacto by blast
  obtain ts2 where ts2: "construir_tramos_coordinacion exacto ''V2'' (map a_semaforo ?s2)
       (map a_tramo_velocidad ?t) 40 = Inr ts2"
    using construir_tramos_exacto by blast
  have v: "max 40 (min ((1.5 * 12 + 5) / (1 - 0.6)) 140) = (57.5::real)"
    "calcular_banda_objetivo 57.5 0.45 = 25.875"
    by (simp_all add: calcular_banda_objetivo_def)
  have g: "generar_plan_global exacto ?s1 ?s2 ?t ?t 40 40 None None 12 0.45 =
      Inr (\<lparr> via_id = ''V1'', tramos = ts1, ciclo_base_s = 57.5, banda_objetivo_s = 25.875 \<rparr>,
           \<lparr> via_id = ''V2'', tramos = ts2, ciclo_base_s = 57.5, banda_objetivo_s = 25.875 \<rparr>)"
    using generar_plan_sin_flujos[of exacto "''V1''" "map a_semaforo ?s1" "map a_tramo_velocidad ?t" 40 12 "0.45"
                 ?s1 ?s2 ?t ?t 40 40 None None] ts1 ts2
    unfolding v by blast
  have p: "generar_plan_para_via exacto ''V1'' (map a_semaforo ?s1) (map a_tramo_velocidad ?t)
             40 None 12 0.45 =
      Inr \<lparr> via_id = ''V1'', tramos = ts1, ciclo_base_s = 57.5, banda_objetivo_s = 25.875 \<rparr>"
    using generar_plan_sin_flujos[of exacto "''V1''" "map a_semaforo ?s1" "map a_tramo_velocidad ?t" 40 12 "0.45"
                 ?s1 ?s2 ?t ?t 40 40 None None] ts1
    unfolding v by blast
  show ?thesis using ts1 ts2 g p by blast
qed

subsection \<open>Target band\<close>

lemma banda_acotada:
  assumes "0 \<le> C"
  shows "0.3 * C \<le> calcular_banda_objetivo C f \<and> calcular_banda_objetivo C f \<le> 0.7 * C"
proof -
  define q :: real where "q = max 0.3 (min f 0.7)"
  have r: "calcular_banda_objetivo C f = C * q"
    by (simp add: calcular_banda_objetivo_def q_def)
  have lo: "0.3 \<le> q" and hi: "q \<le> 0.7"
    by (simp_all add: q_def)
  show ?thesis
    unfolding r
    using assms lo hi mult_left_mono[of "0.3" q C] mult_left_mono[of q "0.7" C]
    by (simp add: mult.commute)
qed

lemma banda_entre:
  "min (0.3 * C) (0.7 * C) \<le> calcular_banda_objetivo C f
   \<and> calcular_banda_objetivo C f \<le> max (0.3 * C) (0.7 * C)"
proof (cases "0 \<le> C")
  case True
  then show ?thesis using banda_acotada[OF True, of f] by (simp add: min_def max_def)
next
  case False
  define q :: real where "q = max 0.3 (min f 0.7)"
  have r: "calcular_banda_objetivo C f = C * q"
    by (simp add: calcular_banda_objetivo_def q_def)
  have lo: "0.3 \<le> q" and hi: "q \<le> 0.7"
    by (simp_all add: q_def)
  have "0.7 * C \<le> C * q \<and> C * q \<le> 0.3 * C"
    using False lo hi mult_left_mono_neg[of "0.3" q C] mult_left_mono_neg[of q "0.7" C]
    by (simp add: mult.commute)
  then show ?thesis unfolding r by (simp add: min_def max_def)
qed

text \<open>
  C7. For every cycle value \<open>C\<close> and every requested fraction \<open>f\<close> the band is \<open>C\<close> times
  the fraction clamped to \<open>[0.3, 0.7]\<close>, and so lies between \<open>0.3 \<cdot> C\<close> and \<open>0.7 \<cdot> C\<close>.
  For a cycle that is not negative, and so for the cycle of every plan, which lies in
  \<open>[40, 140]\<close>, that is \<open>0.3 \<cdot> C \<le> band \<le> 0.7 \<cdot> C\<close>.
\<close>

theorem calcular_banda_objetivo_acotada:
  "min (0.3 * C) (0.7 * C) \<le> calcular_banda_objetivo C f
   \<and> calcular_banda_objetivo C f \<le> max (0.3 * C) (0.7 * C)
   \<and> calcular_banda_objetivo C f = C * max 0.3 (min f 0.7)
   \<and> 0.3 \<le> max 0.3 (min f 0.7) \<and> max 0.3 (min f 0.7) \<le> 0.7
   \<and> (0 \<le> C \<longrightarrow>
        0.3 * C \<le> calcular_banda_objetivo C f \<and> calcular_banda_objetivo C f \<le> 0.7 * C)
   \<and> (\<forall>plan. generar_plan_para_via fl via sems tvs d fc L f = Inr plan \<longrightarrow>
          40 \<le> ciclo_base_s plan \<and> ciclo_base_s plan \<le> 140
        \<and> banda_objetivo_s plan = calcular_banda_objetivo (ciclo_base_s plan) f
        \<and> 0.3 * ciclo_base_s plan \<le> banda_objetivo_s plan
        \<and> banda_objetivo_s plan \<le> 0.7 * ciclo_base_s plan)"
proof -
  have a: "calcular_banda_objetivo C f = C * max 0.3 (min f 0.7)"
    by (simp add: calcular_banda_objetivo_def)
  have b: "0.3 \<le> max 0.3 (min f 0.7) \<and> max 0.3 (min f 0.7) \<le> (0.7::real)"
    by simp
  have c: "40 \<le> ciclo_base_s plan \<and> ciclo_base_s plan \<le> 140
        \<and> banda_objetivo_s plan = calcular_banda_objetivo (ciclo_base_s plan) f
        \<and> 0.3 * ciclo_base_s plan \<le> banda_objetivo_s plan
        \<and> banda_objetivo_s plan \<le> 0.7 * ciclo_base_s plan"
    if h: "generar_plan_para_via fl via sems tvs d fc L f = Inr plan" for plan
  proof -
    obtain ts K where K: "estimar_ciclo_webster (o_lista_vacia fc) L = Inr K"
      "plan = \<lparr> via_id = via, tramos = ts, ciclo_base_s = K,
                banda_objetivo_s = calcular_banda_objetivo K f \<rparr>"
      using generar_plan_para_via_devuelve[OF h] by blast
    have r: "40 \<le> K \<and> K \<le> 140"
      using estimar_ciclo_webster_total[of "o_lista_vacia fc" L] K(1) by auto
    then have "0 \<le> K" by linarith
    from banda_acotada[OF this, of f] r show ?thesis by (simp add: K(2))
  qed
  show ?thesis using a b c banda_entre[of C f] banda_acotada[of C f] by blast
qed

text \<open>
  A cycle of 57.5 s: the default fraction gives 25.875 s, a request of 0.9 is cut to 0.7
  and one of 0.1 raised to 0.3; the plan of a corridor of one signal has that cycle and
  that band.
\<close>

theorem calcular_banda_objetivo_acotada_witness:
  "(0::real) \<le> 57.5
   \<and> 0.3 * 57.5 \<le> calcular_banda_objetivo 57.5 0.45
   \<and> calcular_banda_objetivo 57.5 0.45 \<le> 0.7 * 57.5
   \<and> calcular_banda_objetivo 57.5 0.45 = 25.875
   \<and> calcular_banda_objetivo 57.5 0.9 = 0.7 * 57.5
   \<and> calcular_banda_objetivo 57.5 0.1 = 0.3 * 57.5
   \<and> (\<exists>plan. generar_plan_para_via exacto ''V1''
          [\<lparr>id_local = 0, lat = - 45.870, lon = - 67.500\<rparr>] [] 40 None 12 0.45 = Inr plan
        \<and> ciclo_base_s plan = 57.5 \<and> banda_objetivo_s plan = 25.875
        \<and> 0.3 * ciclo_base_s plan \<le> banda_objetivo_s plan
        \<and> banda_objetivo_s plan \<le> 0.7 * ciclo_base_s plan)"
proof -
  have p: "generar_plan_para_via exacto ''V1''
          [\<lparr>id_local = 0, lat = - 45.870, lon = - 67.500\<rparr>] [] 40 None 12 0.45 =
        Inr \<lparr> via_id = ''V1'', tramos = [], ciclo_base_s = 57.5, banda_objetivo_s = 25.875 \<rparr>"
    by (simp add: generar_plan_para_via_sin_flujos construir_tramos_corto calcular_banda_objetivo_def)
  show ?thesis
    using calcular_banda_objetivo_acotada[of "57.5" "0.45" exacto "''V1''" "[\<lparr>id_local = 0, lat = - 45.870, lon = - 67.500\<rparr>]" "[]" 40 None 12]
      calcular_banda_objetivo_acotada[of "57.5" "0.9"] calcular_banda_objetivo_acotada[of "57.5" "0.1"] p
    by (simp add: calcular_banda_objetivo_def)
qed

section \<open>Properties of the fuzzy controller\<close>

subsection \<open>The output of \<^verbatim>\<open>calcular_tiempo\<close>\<close>

text \<open>
  Inside the declared domains some rule always fires: the vehicle sets cover \<open>[0, 50]\<close>,
  the stop sets cover \<open>[0, 60]\<close>, and where only the sets of the first rule are left both
  of them are positive. The output set of a rule that fires is positive at its apex, so
  the denominator of the centroid is positive.
\<close>

lemma trimf_nonneg: "a \<le> b \<Longrightarrow> b \<le> c \<Longrightarrow> 0 \<le> trimf x (a, b, c)"
  by (simp add: trimf_def)

lemma rule_nonneg: "0 \<le> rule1 v d" "0 \<le> rule2 v d" "0 \<le> rule3 v d"
  by (simp_all add: rule1_def rule2_def rule3_def vehiculos_bajo_def vehiculos_medio_def
      vehiculos_alto_def detencion_corto_def detencion_medio_def detencion_largo_def
      trimf_nonneg le_max_iff_disj)

lemma agregado_nonneg: "0 \<le> agregado v d x"
  using rule_nonneg[of v d]
  by (simp add: agregado_def tiempo_verde_corto_def tiempo_verde_medio_def
      tiempo_verde_largo_def trimf_nonneg le_max_iff_disj)

lemma vehiculos_cubre:
  assumes "0 \<le> v" "v \<le> 50"
  shows "(v < 15 \<and> 0 < vehiculos_bajo v) \<or> 0 < vehiculos_medio v \<or> 0 < vehiculos_alto v"
  using assms by (auto simp: vehiculos_bajo_def vehiculos_medio_def vehiculos_alto_def trimf_def)

lemma detencion_cubre:
  assumes "0 \<le> d" "d \<le> 60"
  shows "(d < 20 \<and> 0 < detencion_corto d) \<or> 0 < detencion_medio d \<or> 0 < detencion_largo d"
  using assms by (auto simp: detencion_corto_def detencion_medio_def detencion_largo_def trimf_def)

lemma alguna_regla:
  assumes "0 \<le> v" "v \<le> 50" "0 \<le> d" "d \<le> 60"
  shows "0 < rule1 v d \<or> 0 < rule2 v d \<or> 0 < rule3 v d"
  using vehiculos_cubre[OF assms(1,2)] detencion_cubre[OF assms(3,4)]
  by (auto simp: rule1_def rule2_def rule3_def less_max_iff_disj)

lemma agregado_apex:
  "0 < rule1 v d \<Longrightarrow> 0 < agregado v d 10"
  "0 < rule2 v d \<Longrightarrow> 0 < agregado v d 45"
  "0 < rule3 v d \<Longrightarrow> 0 < agregado v d 90"
  by (simp_all add: agregado_def tiempo_verde_corto_def tiempo_verde_medio_def
      tiempo_verde_largo_def trimf_def less_max_iff_disj)

lemma sum_list_pos_member:
  fixes f :: "'a \<Rightarrow> real"
  assumes "\<forall>x \<in> set xs. 0 \<le> f x" "y \<in> set xs" "0 < f y"
  shows "0 < sum_list (map f xs)"
  using assms
proof (induction xs)
  case Nil
  then show ?case by simp
next
  case (Cons x xs)
  have nn: "0 \<le> sum_list (map f xs)"
    using Cons.prems(1) by (intro sum_list_nonneg) auto
  show ?case
  proof (cases "y = x")
    case True
    then show ?thesis using Cons.prems(3) nn by simp
  next
    case False
    then have "0 < sum_list (map f xs)" using Cons by simp
    moreover have "0 \<le> f x" using Cons.prems(1) by simp
    ultimately show ?thesis by simp
  qed
qed

lemma universo_apex:
  "10 \<in> set universo_tiempo_verde" "45 \<in> set universo_tiempo_verde" "90 \<in> set universo_tiempo_verde"
proof -
  have "real_of_int 10 \<in> set universo_tiempo_verde" "real_of_int 45 \<in> set universo_tiempo_verde"
       "real_of_int 90 \<in> set universo_tiempo_verde"
    unfolding universo_tiempo_verde_def set_map set_upto by (intro imageI; simp)+
  then show "10 \<in> set universo_tiempo_verde" "45 \<in> set universo_tiempo_verde" "90 \<in> set universo_tiempo_verde"
    by simp_all
qed

lemma denominador_positivo:
  assumes "0 \<le> v" "v \<le> 50" "0 \<le> d" "d \<le> 60"
  shows "0 < sum_list (map (agregado v d) universo_tiempo_verde)"
proof -
  obtain y where "y \<in> set universo_tiempo_verde" "0 < agregado v d y"
    using alguna_regla[OF assms] agregado_apex[of v d] universo_apex by blast
  then show ?thesis
    using sum_list_pos_member[of universo_tiempo_verde "agregado v d" y] agregado_nonneg by blast
qed

text \<open>
  C3. Whatever \<^verbatim>\<open>calcular_tiempo\<close> returns is an integer between 10 and 90, and for
  every pair of inputs inside the declared domains (vehicles in \<open>[0, 50]\<close>, stop duration in
  \<open>[0, 60]\<close>) it does return.
\<close>

theorem calcular_tiempo_en_rango:
  "(\<forall>r. calcular_tiempo v d = Inr r \<longrightarrow> 10 \<le> r \<and> r \<le> 90)
   \<and> (0 \<le> v \<and> v \<le> 50 \<and> 0 \<le> d \<and> d \<le> 60 \<longrightarrow>
        (\<exists>r. calcular_tiempo v d = Inr r \<and> 10 \<le> r \<and> r \<le> 90))"
proof (rule conjI)
  show "\<forall>r. calcular_tiempo v d = Inr r \<longrightarrow> 10 \<le> r \<and> r \<le> 90"
    by (auto simp: calcular_tiempo_def split: sum.splits)
next
  show "0 \<le> v \<and> v \<le> 50 \<and> 0 \<le> d \<and> d \<le> 60 \<longrightarrow>
        (\<exists>r. calcular_tiempo v d = Inr r \<and> 10 \<le> r \<and> r \<le> 90)"
  proof
  assume dom: "0 \<le> v \<and> v \<le> 50 \<and> 0 \<le> d \<and> d \<le> 60"
  then have "sum_list (map (agregado v d) universo_tiempo_verde) \<noteq> 0"
    using denominador_positivo[of v d] by simp
  then obtain s where "fuzzy_controller_compute v d = Inr s"
    by (simp add: fuzzy_controller_compute_def centroide_def Let_def)
  then show "\<exists>r. calcular_tiempo v d = Inr r \<and> 10 \<le> r \<and> r \<le> 90"
    by (simp add: calcular_tiempo_def)
  qed
qed

text \<open>The two scenarios of the specification, \<open>(2, 5)\<close> and \<open>(48, 58)\<close>, lie in the domains.\<close>

theorem calcular_tiempo_en_rango_witness:
  "(0::real) \<le> 2 \<and> (2::real) \<le> 50 \<and> (0::real) \<le> 5 \<and> (5::real) \<le> 60
   \<and> (\<exists>r. calcular_tiempo 2 5 = Inr r \<and> 10 \<le> r \<and> r \<le> 90)
   \<and> (\<exists>r. calcular_tiempo 48 58 = Inr r \<and> 10 \<le> r \<and> r \<le> 90)"
  using calcular_tiempo_en_rango[of 2 5] calcular_tiempo_en_rango[of 48 58] by simp

subsection \<open>The inputs derived from a baseline time\<close>

text \<open>
  The baseline time of a row is a non-negative integer. For such a time \<^verbatim>\<open>int(t_seg / 2)\<close>
  is the floor of the half, and \<^verbatim>\<open>int(70 - t_seg)\<close> is \<open>70 - t_seg\<close> itself. The two
  inputs then lie in the declared domains, so the controller returns for every row.
\<close>

lemma calcular_tiempo_devuelve_en_dominio:
  assumes "0 \<le> v" "v \<le> 50" "0 \<le> d" "d \<le> 60"
  shows "\<exists>r. calcular_tiempo v d = Inr r"
proof -
  have "sum_list (map (agregado v d) universo_tiempo_verde) \<noteq> 0"
    using denominador_positivo[OF assms] by simp
  then obtain s where "fuzzy_controller_compute v d = Inr s"
    by (simp add: fuzzy_controller_compute_def centroide_def Let_def)
  then show ?thesis by (simp add: calcular_tiempo_def)
qed

lemma entradas_difusas_entero:
  assumes "0 \<le> n"
  shows "entradas_difusas (real_of_int n) = (min 50 \<lfloor>real_of_int n / 2\<rfloor>, max 5 (min 60 (70 - n)))"
proof -
  have a: "py_int (real_of_int n / 2) = \<lfloor>real_of_int n / 2\<rfloor>"
    using assms by (simp add: py_int_def)
  have "70 - real_of_int n = real_of_int (70 - n)" by simp
  then have b: "py_int (70 - real_of_int n) = 70 - n"
    unfolding py_int_def by (metis floor_of_int ceiling_of_int)
  show ?thesis
    by (simp add: entradas_difusas_def a b max_def min_def)
qed

lemma recorte_real:
  "real_of_int (max 5 (min 60 (70 - m))) = max 5 (min 60 (70 - real_of_int m))"
  by (simp add: of_int_max of_int_min)

lemma bucle_simular_devuelve:
  assumes "\<forall>n \<in> set items. 0 \<le> n"
  shows "\<exists>rs. bucle_simular items base ajust = Inr (base @ map real_of_int items, ajust @ rs)
            \<and> length rs = length items
            \<and> (\<forall>k<length items.
                  calcular_tiempo (real_of_int (min 50 \<lfloor>real_of_int (items ! k) / 2\<rfloor>))
                                  (real_of_int (max 5 (min 60 (70 - items ! k)))) = Inr (rs ! k))"
  using assms
proof (induction items arbitrary: base ajust)
  case Nil
  then show ?case by simp
next
  case (Cons n items)
  have n: "0 \<le> n" using Cons.prems by simp
  let ?veh = "min 50 \<lfloor>real_of_int n / 2\<rfloor>"
  let ?det = "max 5 (min 60 (70 - n))"
  have e: "entradas_difusas (real_of_int n) = (?veh, ?det)"
    by (rule entradas_difusas_entero[OF n])
  have "0 \<le> \<lfloor>real_of_int n / 2\<rfloor>" using n by simp
  then have "0 \<le> real_of_int ?veh" "real_of_int ?veh \<le> 50"
    "0 \<le> real_of_int ?det" "real_of_int ?det \<le> 60"
    by simp_all
  then obtain r where r: "calcular_tiempo (real_of_int ?veh) (real_of_int ?det) = Inr r"
    using calcular_tiempo_devuelve_en_dominio by blast
  obtain rs where rs:
    "bucle_simular items (base @ [real_of_int n]) (ajust @ [r]) =
       Inr ((base @ [real_of_int n]) @ map real_of_int items, (ajust @ [r]) @ rs)"
    "length rs = length items"
    "\<forall>k<length items.
        calcular_tiempo (real_of_int (min 50 \<lfloor>real_of_int (items ! k) / 2\<rfloor>))
                        (real_of_int (max 5 (min 60 (70 - items ! k)))) = Inr (rs ! k)"
    using Cons.IH[of "base @ [real_of_int n]" "ajust @ [r]"] Cons.prems by auto
  have s: "bucle_simular (n # items) base ajust =
             Inr (base @ map real_of_int (n # items), ajust @ (r # rs))"
    using e r rs(1) by simp
  have "\<forall>k<length (n # items).
        calcular_tiempo (real_of_int (min 50 \<lfloor>real_of_int ((n # items) ! k) / 2\<rfloor>))
                        (real_of_int (max 5 (min 60 (70 - (n # items) ! k)))) = Inr ((r # rs) ! k)"
  proof (intro allI impI)
    fix k assume "k < length (n # items)"
    then show "calcular_tiempo (real_of_int (min 50 \<lfloor>real_of_int ((n # items) ! k) / 2\<rfloor>))
                        (real_of_int (max 5 (min 60 (70 - (n # items) ! k)))) = Inr ((r # rs) ! k)"
      using r rs(3) by (cases k) simp_all
  qed
  then show ?case using s rs(2) by (intro exI[of _ "r # rs"]) simp
qed

text \<open>
  C8. For every baseline time \<open>t\<close> of the table the inputs of the engine are
  \<open>min(50, floor(t / 2))\<close> vehicles and \<open>clamp(5, 60, 70 - t)\<close> seconds of stop. For every
  table that is not empty the method returns the baseline times and, row by row and in
  order, what \<^verbatim>\<open>calcular_tiempo\<close> gives for these two inputs.
\<close>

theorem entradas_difusas_derivacion:
  "(0 \<le> n \<longrightarrow>
      fst (entradas_difusas (real_of_int n)) = min 50 \<lfloor>real_of_int n / 2\<rfloor>
    \<and> real_of_int (snd (entradas_difusas (real_of_int n))) = max 5 (min 60 (70 - real_of_int n)))
   \<and> (items \<noteq> [] \<and> (\<forall>m \<in> set items. 0 \<le> m) \<longrightarrow>
        (\<exists>rs. simular_ajuste_difuso items = Inr (Some (map real_of_int items, rs))
            \<and> length rs = length items
            \<and> (\<forall>k<length items.
                  calcular_tiempo (real_of_int (min 50 \<lfloor>real_of_int (items ! k) / 2\<rfloor>))
                                  (max 5 (min 60 (70 - real_of_int (items ! k)))) = Inr (rs ! k))))"
proof (rule conjI)
  show "0 \<le> n \<longrightarrow>
      fst (entradas_difusas (real_of_int n)) = min 50 \<lfloor>real_of_int n / 2\<rfloor>
    \<and> real_of_int (snd (entradas_difusas (real_of_int n))) = max 5 (min 60 (70 - real_of_int n))"
    by (simp add: entradas_difusas_entero recorte_real)
next
  show "items \<noteq> [] \<and> (\<forall>m \<in> set items. 0 \<le> m) \<longrightarrow>
        (\<exists>rs. simular_ajuste_difuso items = Inr (Some (map real_of_int items, rs))
            \<and> length rs = length items
            \<and> (\<forall>k<length items.
                  calcular_tiempo (real_of_int (min 50 \<lfloor>real_of_int (items ! k) / 2\<rfloor>))
                                  (max 5 (min 60 (70 - real_of_int (items ! k)))) = Inr (rs ! k)))"
  proof
    assume h: "items \<noteq> [] \<and> (\<forall>m \<in> set items. 0 \<le> m)"
    then obtain rs where rs:
      "bucle_simular items [] [] = Inr ([] @ map real_of_int items, [] @ rs)"
      "length rs = length items"
      "\<forall>k<length items.
          calcular_tiempo (real_of_int (min 50 \<lfloor>real_of_int (items ! k) / 2\<rfloor>))
                          (real_of_int (max 5 (min 60 (70 - items ! k)))) = Inr (rs ! k)"
      using bucle_simular_devuelve[of items "[]" "[]"] by blast
    have "simular_ajuste_difuso items = Inr (Some (map real_of_int items, rs))"
      using h rs(1) by (simp add: simular_ajuste_difuso_def)
    then show "\<exists>rs. simular_ajuste_difuso items = Inr (Some (map real_of_int items, rs))
            \<and> length rs = length items
            \<and> (\<forall>k<length items.
                  calcular_tiempo (real_of_int (min 50 \<lfloor>real_of_int (items ! k) / 2\<rfloor>))
                                  (max 5 (min 60 (70 - real_of_int (items ! k)))) = Inr (rs ! k))"
      using rs(2,3) unfolding recorte_real by blast
  qed
qed

text \<open>A table of three rows, with the baseline times 36 s, 4 s and 120 s.\<close>

theorem entradas_difusas_derivacion_witness:
  "(0::int) \<le> 36
   \<and> entradas_difusas 36 = (18, 34) \<and> entradas_difusas 4 = (2, 60) \<and> entradas_difusas 120 = (50, 5)
   \<and> (\<exists>rs. simular_ajuste_difuso [36, 4, 120] = Inr (Some ([36, 4, 120], rs))
         \<and> length rs = 3
         \<and> calcular_tiempo 18 34 = Inr (rs ! 0)
         \<and> calcular_tiempo 2 60 = Inr (rs ! 1)
         \<and> calcular_tiempo 50 5 = Inr (rs ! 2))"
proof -
  have e: "entradas_difusas 36 = (18, 34) \<and> entradas_difusas 4 = (2, 60)
           \<and> entradas_difusas 120 = (50, 5)"
    using entradas_difusas_derivacion[of 36 "[]"] entradas_difusas_derivacion[of 4 "[]"] entradas_difusas_derivacion[of 120 "[]"]
    by (simp add: prod_eq_iff entradas_difusas_def py_int_def)
  obtain rs where rs: "simular_ajuste_difuso [36, 4, 120] = Inr (Some (map real_of_int [36, 4, 120], rs))"
    "length rs = length [36, 4, 120 :: int]"
    "\<forall>k<length [36, 4, 120 :: int].
        calcular_tiempo (real_of_int (min 50 \<lfloor>real_of_int ([36, 4, 120] ! k) / 2\<rfloor>))
                        (max 5 (min 60 (70 - real_of_int ([36, 4, 120] ! k)))) = Inr (rs ! k)"
    using entradas_difusas_derivacion[of 0 "[36, 4, 120]"] by auto
  have "calcular_tiempo 18 34 = Inr (rs ! 0)" using rs(3)[rule_format, of 0] by simp
  moreover have "calcular_tiempo 2 60 = Inr (rs ! 1)" using rs(3)[rule_format, of 1] by simp
  moreover have "calcular_tiempo 50 5 = Inr (rs ! 2)" using rs(3)[rule_format, of 2] by simp
  ultimately show ?thesis using e rs(1,2) by simp
qed

end
